theory Spec2Isabelle
  imports Complex_Main "HOL-Library.Multiset"
begin

section \<open>Boston Airbnb Finder (app.py): data model\<close>

text \<open>
  The program works on pandas data frames. A frame is modelled row by row, as a list of
  records in table order, one field per column the program names.

  A cell as \<open>pd.read_csv\<close> delivers it is missing (pandas' NaN/None), a number, or
  text. Finite numbers are exact rationals: the rounding of float64 arithmetic and the
  infinities are outside this model, the missing marker NaN is inside it.
\<close>

datatype cell = Missing | Number rat | Text string

text \<open>A cell of a column of numeric dtype: NaN marks the missing value.\<close>

datatype float64 = NaN | Fin rat

text \<open>
  One row of the listings frame. The four columns \<open>price\<close>, \<open>availability_365\<close>,
  \<open>number_of_reviews\<close> and \<open>reviews_per_month\<close> hold raw cells (\<open>'c = cell\<close>) as read
  from the file and numeric cells (\<open>'c = float64\<close>) once \<open>load_data\<close> has cleaned them.
\<close>

record 'c listing =
  name :: cell
  price :: 'c
  neighbourhood :: cell
  availability_365 :: 'c
  number_of_reviews :: 'c
  reviews_per_month :: 'c
  latitude :: cell
  longitude :: cell

text \<open>A cleaned row carries the derived column \<open>rating\<close>.\<close>

record rated = "float64 listing" +
  rating :: float64

text \<open>
  Comparison of a numeric column with a scalar, as pandas evaluates \<open>col >= s\<close> and
  \<open>col <= s\<close> cell by cell: every comparison with NaN is False.
\<close>

fun ge_scalar :: "float64 \<Rightarrow> rat \<Rightarrow> bool" where
  "ge_scalar NaN s = False"
| "ge_scalar (Fin x) s = (s \<le> x)"

fun le_scalar :: "float64 \<Rightarrow> rat \<Rightarrow> bool" where
  "le_scalar NaN s = False"
| "le_scalar (Fin x) s = (x \<le> s)"

text \<open>\<open>col == s\<close> for a string \<open>s\<close>: true exactly on a text cell with that content.\<close>

fun eq_str :: "cell \<Rightarrow> string \<Rightarrow> bool" where
  "eq_str (Text t) s = (t = s)"
| "eq_str _ s = False"

section \<open>filter\_listings\<close>

text \<open>
  \<^verbatim>\<open>
  def filter_listings(data, min_price, max_price, neighborhood=None):
      if neighborhood:
          return data[(data['price'] >= min_price) & (data['price'] <= max_price) &
                      (data['neighbourhood'] == neighborhood)]
      return data[(data['price'] >= min_price) & (data['price'] <= max_price)]
  \<close>
  \<open>if neighborhood:\<close> is Python truthiness: \<open>None\<close> and the empty string both take
  the second branch. Boolean indexing builds a new frame with the selected rows in table
  order.
\<close>

fun truthy :: "string option \<Rightarrow> bool" where
  "truthy None = False"
| "truthy (Some s) = (s \<noteq> [])"

definition filter_listings ::
  "(float64, 'z) listing_scheme list \<Rightarrow> rat \<Rightarrow> rat \<Rightarrow> string option
    \<Rightarrow> (float64, 'z) listing_scheme list" where
  "filter_listings data min_price max_price neighborhood =
     (if truthy neighborhood then
        filter (\<lambda>r. ge_scalar (price r) min_price \<and> le_scalar (price r) max_price \<and>
                     eq_str (neighbourhood r) (the neighborhood)) data
      else
        filter (\<lambda>r. ge_scalar (price r) min_price \<and> le_scalar (price r) max_price) data)"

text \<open>The price of a row lies in the closed interval from \<open>lo\<close> to \<open>hi\<close>.\<close>

definition price_between :: "rat \<Rightarrow> rat \<Rightarrow> (float64, 'z) listing_scheme \<Rightarrow> bool" where
  "price_between lo hi r = (case price r of NaN \<Rightarrow> False | Fin p \<Rightarrow> lo \<le> p \<and> p \<le> hi)"

section \<open>load\_data: the Loader and the Cleaner\<close>

text \<open>
  The four reads are file I/O: the outcome of each read is a parameter of the model, a
  frame or the exception the read raises. Among the exceptions pandas raises are
  FileNotFoundError for a missing file, \<open>pd.errors.ParserError\<close> for a CSV file whose
  rows cannot be split into fields, \<open>pd.errors.EmptyDataError\<close> (a ValueError, not a
  ParserError) for an empty CSV file, and ValueError for a file that \<open>pd.read_excel\<close>
  cannot read as an Excel file.
\<close>

datatype exn = FileNotFoundError | ParserError | TypeError | ValueError | EmptyDataError | OtherError

datatype 'a read = Loaded 'a | Raises exn

record restaurant =
  Location :: cell
  Cuisine :: cell
  details :: "cell list"

record files =
  listings_csv :: "cell listing list read"
  neighbourhoods_csv :: "cell list read"
  reviews_csv :: "cell list list read"
  restaurants_xlsx :: "restaurant list read"

text \<open>What \<open>load_data\<close> shows with \<open>st.error\<close>.\<close>

datatype st_error = File_not_found | Error_parsing

type_synonym tables =
  "rated list option \<times> cell list option \<times> cell list list option \<times> restaurant list option"

text \<open>
  The \<open>try\<close> block: the reads run in order and the first exception leaves the block.
\<close>

definition read_files ::
  "files \<Rightarrow> exn + (cell listing list \<times> cell list \<times> cell list list \<times> restaurant list)" where
  "read_files fs =
     (case listings_csv fs of Raises e \<Rightarrow> Inl e | Loaded listings \<Rightarrow>
      (case neighbourhoods_csv fs of Raises e \<Rightarrow> Inl e | Loaded neighbourhoods \<Rightarrow>
       (case reviews_csv fs of Raises e \<Rightarrow> Inl e | Loaded reviews \<Rightarrow>
        (case restaurants_xlsx fs of Raises e \<Rightarrow> Inl e | Loaded restaurants \<Rightarrow>
           Inr (listings, neighbourhoods, reviews, restaurants)))))"

text \<open>
  \<open>listings.dropna(subset=["price", "availability_365", "neighbourhood",
  "number_of_reviews"])\<close>: a row stays when none of the four cells is missing.
\<close>

definition dropna :: "cell listing list \<Rightarrow> cell listing list" where
  "dropna listings =
     filter (\<lambda>r. price r \<noteq> Missing \<and> availability_365 r \<noteq> Missing \<and>
                  neighbourhood r \<noteq> Missing \<and> number_of_reviews r \<noteq> Missing) listings"

text \<open>
  \<open>pd.to_numeric(col, errors="coerce")\<close> on one cell. How pandas reads a number out
  of text is the parameter \<open>parse\<close>; text it cannot read becomes NaN.
\<close>

fun to_numeric :: "(string \<Rightarrow> rat option) \<Rightarrow> cell \<Rightarrow> float64" where
  "to_numeric parse Missing = NaN"
| "to_numeric parse (Number x) = Fin x"
| "to_numeric parse (Text s) = (case parse s of Some x \<Rightarrow> Fin x | None \<Rightarrow> NaN)"

text \<open>\<open>col.fillna(v)\<close> on one cell.\<close>

fun fillna :: "rat \<Rightarrow> cell \<Rightarrow> cell" where
  "fillna v Missing = Number v"
| "fillna v c = c"

text \<open>
  \<open>lambda x: x * 5 if x * 5 <= 5 else 5\<close>. On a float the comparison with NaN is False,
  which selects 5. On a \<open>str\<close> the product is a string and \<open><=\<close> with an int raises
  TypeError.
\<close>

fun rating_lambda :: "float64 \<Rightarrow> float64" where
  "rating_lambda NaN = Fin 5"
| "rating_lambda (Fin x) = (if x * 5 \<le> 5 then Fin (x * 5) else Fin 5)"

fun apply_rating :: "cell \<Rightarrow> exn + (float64 \<times> float64)" where
  "apply_rating Missing = Inr (NaN, rating_lambda NaN)"
| "apply_rating (Number x) = Inr (Fin x, rating_lambda (Fin x))"
| "apply_rating (Text s) = Inl TypeError"

text \<open>
  The steps of lines 48 to 59 on one row that survived \<open>dropna\<close>: the three coercions,
  the fill of \<open>reviews_per_month\<close>, and the new column \<open>rating\<close>.
\<close>

definition clean_row :: "(string \<Rightarrow> rat option) \<Rightarrow> cell listing \<Rightarrow> exn + rated" where
  "clean_row parse r =
     (case apply_rating (fillna 0 (reviews_per_month r)) of
        Inl e \<Rightarrow> Inl e
      | Inr (rpm, rt) \<Rightarrow>
          Inr \<lparr>name = name r,
               price = to_numeric parse (price r),
               neighbourhood = neighbourhood r,
               availability_365 = to_numeric parse (availability_365 r),
               number_of_reviews = to_numeric parse (number_of_reviews r),
               reviews_per_month = rpm,
               latitude = latitude r,
               longitude = longitude r,
               rating = rt\<rparr>)"

text \<open>A column operation over the rows in order: the first exception ends it.\<close>

fun map_rows :: "('a \<Rightarrow> exn + 'b) \<Rightarrow> 'a list \<Rightarrow> exn + 'b list" where
  "map_rows f [] = Inr []"
| "map_rows f (x # xs) =
     (case f x of
        Inl e \<Rightarrow> Inl e
      | Inr y \<Rightarrow> (case map_rows f xs of Inl e \<Rightarrow> Inl e | Inr ys \<Rightarrow> Inr (y # ys)))"

definition clean :: "(string \<Rightarrow> rat option) \<Rightarrow> cell listing list \<Rightarrow> exn + rated list" where
  "clean parse listings = map_rows (clean_row parse) (dropna listings)"

text \<open>
  \<open>load_data\<close> returns \<open>Inl e\<close> when the exception \<open>e\<close> leaves it, and otherwise the
  messages shown with \<open>st.error\<close> and the returned tuple.
\<close>

definition load_data :: "(string \<Rightarrow> rat option) \<Rightarrow> files \<Rightarrow> exn + (st_error list \<times> tables)" where
  "load_data parse fs =
     (case read_files fs of
        Inl FileNotFoundError \<Rightarrow> Inr ([File_not_found], None, None, None, None)
      | Inl ParserError \<Rightarrow> Inr ([Error_parsing], None, None, None, None)
      | Inl e \<Rightarrow> Inl e
      | Inr (listings, neighbourhoods, reviews, restaurants) \<Rightarrow>
          (case clean parse listings of
             Inl e \<Rightarrow> Inl e
           | Inr cleaned \<Rightarrow> Inr ([], Some cleaned, Some neighbourhoods, Some reviews, Some restaurants)))"

text \<open>The cells \<open>to_numeric\<close> turns into a number: numbers, and text \<open>parse\<close> reads.\<close>

fun coercible :: "(string \<Rightarrow> rat option) \<Rightarrow> cell \<Rightarrow> bool" where
  "coercible parse Missing = False"
| "coercible parse (Number x) = True"
| "coercible parse (Text s) = (parse s \<noteq> None)"

text \<open>The exceptions of the reads that fail, in read order.\<close>

fun raised :: "'a read \<Rightarrow> exn list" where
  "raised (Loaded x) = []"
| "raised (Raises e) = [e]"

definition failures :: "files \<Rightarrow> exn list" where
  "failures fs = raised (listings_csv fs) @ raised (neighbourhoods_csv fs) @
                 raised (reviews_csv fs) @ raised (restaurants_xlsx fs)"

section \<open>top\_rated\_airbnbs\_page\<close>

text \<open>
  The page receives the listings frame by reference and may assign a column to it, so the
  model returns the frame as the call leaves it together with the page's result. A frame
  either has the column \<open>rating\<close> or does not.
\<close>

datatype frame = Without_rating "float64 listing list" | With_rating "rated list"

text \<open>\<open>listings['reviews_per_month'] * 5\<close> on one cell: NaN stays NaN.\<close>

fun times5 :: "float64 \<Rightarrow> float64" where
  "times5 NaN = NaN"
| "times5 (Fin x) = Fin (x * 5)"

definition with_rating :: "float64 listing \<Rightarrow> float64 \<Rightarrow> rated" where
  "with_rating r v =
     \<lparr>name = name r, price = price r, neighbourhood = neighbourhood r,
      availability_365 = availability_365 r, number_of_reviews = number_of_reviews r,
      reviews_per_month = reviews_per_month r, latitude = latitude r,
      longitude = longitude r, rating = v\<rparr>"

text \<open>
  \<^verbatim>\<open>
  if 'rating' not in listings.columns:
      listings['rating'] = listings['reviews_per_month'] * 5
  \<close>
\<close>

fun ensure_rating :: "frame \<Rightarrow> rated list" where
  "ensure_rating (Without_rating ls) = map (\<lambda>r. with_rating r (times5 (reviews_per_month r))) ls"
| "ensure_rating (With_rating rs) = rs"

text \<open>
  \<open>[name for name in filtered_data['name'] if len(name) > 0]\<close>: \<open>len\<close> of a cell
  that is not text (a missing name is the float NaN) raises TypeError.
\<close>

fun high_rating_names :: "rated list \<Rightarrow> exn + string list" where
  "high_rating_names [] = Inr []"
| "high_rating_names (r # rs) =
     (case name r of
        Text s \<Rightarrow>
          (case high_rating_names rs of
             Inl e \<Rightarrow> Inl e
           | Inr ns \<Rightarrow> Inr (if length s > 0 then s # ns else ns))
      | _ \<Rightarrow> Inl TypeError)"

text \<open>\<open>col.isin(values)\<close> for a list of strings, on one cell.\<close>

fun isin :: "cell \<Rightarrow> string list \<Rightarrow> bool" where
  "isin (Text t) vs = (t \<in> set vs)"
| "isin _ vs = False"

text \<open>
  Lines 94 to 105. The widget values \<open>min_rating\<close> and \<open>selected_neighborhoods\<close> are
  parameters. The result is the frame \<open>listings\<close> after the call, and \<open>filtered_data\<close>
  or the exception raised.
\<close>

definition top_rated_airbnbs_page ::
  "frame \<Rightarrow> rat \<Rightarrow> string list \<Rightarrow> frame \<times> (exn + rated list)" where
  "top_rated_airbnbs_page listings min_rating selected_neighborhoods =
     (let rows = ensure_rating listings;
          filtered_data = filter (\<lambda>r. ge_scalar (rating r) min_rating) rows
      in (With_rating rows,
          (case high_rating_names filtered_data of
             Inl e \<Rightarrow> Inl e
           | Inr names \<Rightarrow>
               Inr (if selected_neighborhoods \<noteq> []
                    then filter (\<lambda>r. isin (neighbourhood r) selected_neighborhoods) filtered_data
                    else filtered_data))))"

section \<open>most\_affordable\_airbnbs\_page\<close>

text \<open>
  \<open>affordable_data.sort_values(by='price')\<close> is called with the default
  \<open>kind='quicksort'\<close>, for which pandas promises an ascending order with NaN last and
  no order among equal keys. The sort is therefore a parameter \<open>sort_values\<close> of the
  model, and \<open>sorts_by_price\<close> is what pandas promises of it on one frame.
\<close>

fun sort_le :: "float64 \<Rightarrow> float64 \<Rightarrow> bool" where
  "sort_le x NaN = True"
| "sort_le NaN (Fin y) = False"
| "sort_le (Fin x) (Fin y) = (x \<le> y)"

definition sorts_by_price :: "rated list \<Rightarrow> rated list \<Rightarrow> bool" where
  "sorts_by_price xs ys =
     (mset ys = mset xs \<and> sorted_wrt (\<lambda>a b. sort_le (price a) (price b)) ys)"

text \<open>
  Lines 216 to 218, with the selected neighbourhood as a parameter. The result is the
  frame \<open>listings\<close> after the call and \<open>affordable_data\<close>.
\<close>

definition most_affordable_airbnbs_page ::
  "(rated list \<Rightarrow> rated list) \<Rightarrow> rated list \<Rightarrow> string \<Rightarrow> rated list \<times> rated list" where
  "most_affordable_airbnbs_page sort_values listings selected_neighborhood =
     (let affordable_data =
            filter_listings listings 0 200
              (if selected_neighborhood = ''All'' then None else Some selected_neighborhood)
      in (listings, take 10 (sort_values affordable_data)))"

text \<open>
  The stable ascending sort the specification speaks of: insertion from the right, an
  element going in front of the first one that is not smaller.
\<close>

fun insert_by_price :: "rated \<Rightarrow> rated list \<Rightarrow> rated list" where
  "insert_by_price x [] = [x]"
| "insert_by_price x (y # ys) =
     (if sort_le (price x) (price y) then x # y # ys else y # insert_by_price x ys)"

fun stable_sort_by_price :: "rated list \<Rightarrow> rated list" where
  "stable_sort_by_price [] = []"
| "stable_sort_by_price (x # xs) = insert_by_price x (stable_sort_by_price xs)"

text \<open>An ascending sort that is not stable: equal prices come out in reverse table order.\<close>

definition reversing_sort_by_price :: "rated list \<Rightarrow> rated list" where
  "reversing_sort_by_price xs = stable_sort_by_price (rev xs)"

section \<open>price\_distribution\_page\<close>









section \<open>restaurant\_page\<close>

text \<open>
  Lines 268 to 274, with the two selected values as parameters: the frame
  \<open>restaurants\<close> after the call, and \<open>filtered_data\<close>. The filters work on the copy.
\<close>

definition restaurant_page ::
  "restaurant list \<Rightarrow> string \<Rightarrow> string \<Rightarrow> restaurant list \<times> restaurant list" where
  "restaurant_page restaurants location cuisine =
     (let filtered_data = restaurants;
          filtered_data = (if location \<noteq> ''All''
                           then filter (\<lambda>r. eq_str (Location r) location) filtered_data
                           else filtered_data);
          filtered_data = (if cuisine \<noteq> ''All''
                           then filter (\<lambda>r. eq_str (Cuisine r) cuisine) filtered_data
                           else filtered_data)
      in (restaurants, filtered_data))"

section \<open>The Query Layer on frames held by reference\<close>

text \<open>
  Python passes a frame by reference, so whether an operation changes the frame it is
  given is a question about the objects behind the references. Here the frames live in a
  heap, a list of objects, and a reference is a position in it; a reference a program
  holds is always below the length of the heap. A pandas call that returns a new frame
  (boolean indexing \<open>data[mask]\<close>, \<open>copy\<close>, \<open>sort_values\<close>, \<open>head\<close>) puts its result
  at the end of the heap and yields the new reference. The column assignment of line 95
  overwrites the object at the reference it is given. Each of the four operations is
  written again in this form, statement by statement.
\<close>

definition alloc :: "'a list \<Rightarrow> 'a \<Rightarrow> 'a list \<times> nat" where
  "alloc heap x = (heap @ [x], length heap)"

text \<open>\<open>filter_listings\<close>, lines 20 to 27: either branch returns \<open>data[mask]\<close>.\<close>

definition filter_listings_ref ::
  "(float64, 'z) listing_scheme list list \<Rightarrow> nat \<Rightarrow> rat \<Rightarrow> rat \<Rightarrow> string option
    \<Rightarrow> (float64, 'z) listing_scheme list list \<times> nat" where
  "filter_listings_ref heap data min_price max_price neighborhood =
     alloc heap (filter_listings (heap ! data) min_price max_price neighborhood)"

text \<open>
  \<open>most_affordable_airbnbs_page\<close>, lines 216 to 218: the call of \<open>filter_listings\<close>,
  then \<open>sort_values\<close> and \<open>head(10)\<close>, each returning a new frame.
\<close>

definition most_affordable_airbnbs_page_ref ::
  "(rated list \<Rightarrow> rated list) \<Rightarrow> rated list list \<Rightarrow> nat \<Rightarrow> string \<Rightarrow> rated list list \<times> nat" where
  "most_affordable_airbnbs_page_ref sort_values heap listings selected_neighborhood =
     (let (heap1, affordable_data) =
            filter_listings_ref heap listings 0 200
              (if selected_neighborhood = ''All'' then None else Some selected_neighborhood);
          (heap2, sorted_data) = alloc heap1 (sort_values (heap1 ! affordable_data));
          (heap3, affordable_data) = alloc heap2 (take 10 (heap2 ! sorted_data))
      in (heap3, affordable_data))"

text \<open>
  \<open>restaurant_page\<close>, lines 268 to 274: \<open>restaurants.copy()\<close>, then each filter
  that applies is a boolean indexing of \<open>filtered_data\<close>.
\<close>

definition restaurant_page_ref ::
  "restaurant list list \<Rightarrow> nat \<Rightarrow> string \<Rightarrow> string \<Rightarrow> restaurant list list \<times> nat" where
  "restaurant_page_ref heap restaurants location cuisine =
     (let (heap1, filtered_data) = alloc heap (heap ! restaurants);
          (heap2, filtered_data) =
            (if location \<noteq> ''All''
             then alloc heap1 (filter (\<lambda>r. eq_str (Location r) location) (heap1 ! filtered_data))
             else (heap1, filtered_data));
          (heap3, filtered_data) =
            (if cuisine \<noteq> ''All''
             then alloc heap2 (filter (\<lambda>r. eq_str (Cuisine r) cuisine) (heap2 ! filtered_data))
             else (heap2, filtered_data))
      in (heap3, filtered_data))"

text \<open>
  \<open>top_rated_airbnbs_page\<close>, lines 94 to 105. When the frame at \<open>listings\<close> has no
  column \<open>rating\<close>, line 95 assigns the column to that frame. The two filters are boolean
  indexings; between them line 101 may raise. The result is the heap after the call and
  the reference of \<open>filtered_data\<close>, or the exception.
\<close>

definition top_rated_airbnbs_page_ref ::
  "frame list \<Rightarrow> nat \<Rightarrow> rat \<Rightarrow> string list \<Rightarrow> frame list \<times> (exn + nat)" where
  "top_rated_airbnbs_page_ref heap listings min_rating selected_neighborhoods =
     (let heap1 = (case heap ! listings of
                     Without_rating ls \<Rightarrow>
                       heap[listings := With_rating (ensure_rating (Without_rating ls))]
                   | With_rating rs \<Rightarrow> heap);
          (heap2, filtered_data) =
            alloc heap1 (With_rating (filter (\<lambda>r. ge_scalar (rating r) min_rating)
                                             (ensure_rating (heap1 ! listings))))
      in (case high_rating_names (ensure_rating (heap2 ! filtered_data)) of
            Inl e \<Rightarrow> (heap2, Inl e)
          | Inr names \<Rightarrow>
              if selected_neighborhoods \<noteq> []
              then (let (heap3, filtered_data) =
                          alloc heap2 (With_rating
                            (filter (\<lambda>r. isin (neighbourhood r) selected_neighborhoods)
                                    (ensure_rating (heap2 ! filtered_data))))
                    in (heap3, Inr filtered_data))
              else (heap2, Inr filtered_data)))"

section \<open>Example data\<close>

text \<open>A reader of numbers that knows one text, and the raw rows of a small file.\<close>

definition parse_example :: "string \<Rightarrow> rat option" where
  "parse_example s = (if s = ''120'' then Some 120 else None)"

definition raw_loft :: "cell listing" where
  "raw_loft = \<lparr>name = Text ''Loft'', price = Number 50, neighbourhood = Text ''Back Bay'',
     availability_365 = Text ''120'', number_of_reviews = Number 8,
     reviews_per_month = Number (1 / 2), latitude = Number 42, longitude = Number (- 71)\<rparr>"

definition raw_text_price :: "cell listing" where
  "raw_text_price = \<lparr>name = Text ''Studio'', price = Text ''abc'', neighbourhood = Text ''Fenway'',
     availability_365 = Number 30, number_of_reviews = Number 0,
     reviews_per_month = Missing, latitude = Number 42, longitude = Number (- 71)\<rparr>"

definition raw_no_price :: "cell listing" where
  "raw_no_price = \<lparr>name = Text ''Attic'', price = Missing, neighbourhood = Text ''Fenway'',
     availability_365 = Number 30, number_of_reviews = Number 2,
     reviews_per_month = Number 3, latitude = Number 42, longitude = Number (- 71)\<rparr>"

definition raw_negative :: "cell listing" where
  "raw_negative = \<lparr>name = Text ''Cellar'', price = Number 80, neighbourhood = Text ''Fenway'',
     availability_365 = Number 30, number_of_reviews = Number 2,
     reviews_per_month = Number (- 1), latitude = Number 42, longitude = Number (- 71)\<rparr>"

definition files_ok :: files where
  "files_ok = \<lparr>listings_csv = Loaded [raw_loft, raw_text_price, raw_no_price],
     neighbourhoods_csv = Loaded [Text ''Back Bay'', Text ''Fenway''],
     reviews_csv = Loaded [], restaurants_xlsx = Loaded []\<rparr>"

definition files_negative :: files where
  "files_negative = \<lparr>listings_csv = Loaded [raw_text_price, raw_negative],
     neighbourhoods_csv = Loaded [Text ''Fenway''],
     reviews_csv = Loaded [], restaurants_xlsx = Loaded []\<rparr>"

definition files_missing :: files where
  "files_missing = \<lparr>listings_csv = Loaded [raw_loft],
     neighbourhoods_csv = Raises FileNotFoundError,
     reviews_csv = Loaded [], restaurants_xlsx = Raises ParserError\<rparr>"

text \<open>What the Cleaner makes of three of the raw rows.\<close>

definition cleaned_loft :: rated where
  "cleaned_loft = \<lparr>name = Text ''Loft'', price = Fin 50, neighbourhood = Text ''Back Bay'',
     availability_365 = Fin 120, number_of_reviews = Fin 8, reviews_per_month = Fin (1 / 2),
     latitude = Number 42, longitude = Number (- 71), rating = Fin (5 / 2)\<rparr>"

definition cleaned_text_price :: rated where
  "cleaned_text_price = \<lparr>name = Text ''Studio'', price = NaN, neighbourhood = Text ''Fenway'',
     availability_365 = Fin 30, number_of_reviews = Fin 0, reviews_per_month = Fin 0,
     latitude = Number 42, longitude = Number (- 71), rating = Fin 0\<rparr>"

definition cleaned_negative :: rated where
  "cleaned_negative = \<lparr>name = Text ''Cellar'', price = Fin 80, neighbourhood = Text ''Fenway'',
     availability_365 = Fin 30, number_of_reviews = Fin 2, reviews_per_month = Fin (- 1),
     latitude = Number 42, longitude = Number (- 71), rating = Fin (- 5)\<rparr>"

text \<open>Rows of a cleaned frame.\<close>

definition listing_a :: rated where
  "listing_a = \<lparr>name = Text ''A'', price = Fin 50, neighbourhood = Text ''Back Bay'',
     availability_365 = Fin 120, number_of_reviews = Fin 8, reviews_per_month = Fin 1,
     latitude = Number 42, longitude = Number (- 71), rating = Fin 5\<rparr>"

definition listing_b :: rated where
  "listing_b = \<lparr>name = Text ''B'', price = Fin 50, neighbourhood = Text ''Fenway'',
     availability_365 = Fin 30, number_of_reviews = Fin 2, reviews_per_month = Fin (1 / 2),
     latitude = Number 42, longitude = Number (- 71), rating = Fin (5 / 2)\<rparr>"

definition listing_nan :: rated where
  "listing_nan = \<lparr>name = Text ''C'', price = NaN, neighbourhood = Text ''Fenway'',
     availability_365 = Fin 30, number_of_reviews = Fin 0, reviews_per_month = Fin 0,
     latitude = Number 42, longitude = Number (- 71), rating = Fin 0\<rparr>"

definition listing_dear :: rated where
  "listing_dear = \<lparr>name = Text ''D'', price = Fin 250, neighbourhood = Text ''Back Bay'',
     availability_365 = Fin 30, number_of_reviews = Fin 0, reviews_per_month = Fin 0,
     latitude = Number 42, longitude = Number (- 71), rating = Fin 0\<rparr>"

definition listing_unnamed :: rated where
  "listing_unnamed = \<lparr>name = Missing, price = Fin 90, neighbourhood = Text ''Fenway'',
     availability_365 = Fin 30, number_of_reviews = Fin 9, reviews_per_month = Fin 1,
     latitude = Number 42, longitude = Number (- 71), rating = Fin 5\<rparr>"


text \<open>
  A restaurants file whose content is not a readable Excel file, and an empty
  listings file: \<open>pd.read_excel\<close> raises ValueError on the first and \<open>pd.read_csv\<close>
  raises EmptyDataError on the second.
\<close>

definition files_bad_excel :: files where
  "files_bad_excel = \<lparr>listings_csv = Loaded [raw_loft],
     neighbourhoods_csv = Loaded [Text ''Back Bay''],
     reviews_csv = Loaded [], restaurants_xlsx = Raises ValueError\<rparr>"

definition files_empty_csv :: files where
  "files_empty_csv = \<lparr>listings_csv = Raises EmptyDataError,
     neighbourhoods_csv = Loaded [Text ''Back Bay''],
     reviews_csv = Loaded [], restaurants_xlsx = Loaded []\<rparr>"

text \<open>Four rows of a cleaned frame with the prices 60, 60, 50 and 50, in this order.\<close>

definition listing_60_first :: rated where
  "listing_60_first = \<lparr>name = Text ''G'', price = Fin 60, neighbourhood = Text ''Fenway'',
     availability_365 = Fin 30, number_of_reviews = Fin 1, reviews_per_month = Fin 0,
     latitude = Number 42, longitude = Number (- 71), rating = Fin 0\<rparr>"

definition listing_60_second :: rated where
  "listing_60_second = \<lparr>name = Text ''H'', price = Fin 60, neighbourhood = Text ''Fenway'',
     availability_365 = Fin 30, number_of_reviews = Fin 1, reviews_per_month = Fin 0,
     latitude = Number 42, longitude = Number (- 71), rating = Fin 0\<rparr>"

definition listing_50_first :: rated where
  "listing_50_first = \<lparr>name = Text ''I'', price = Fin 50, neighbourhood = Text ''Fenway'',
     availability_365 = Fin 30, number_of_reviews = Fin 1, reviews_per_month = Fin 0,
     latitude = Number 42, longitude = Number (- 71), rating = Fin 0\<rparr>"

definition listing_50_second :: rated where
  "listing_50_second = \<lparr>name = Text ''J'', price = Fin 50, neighbourhood = Text ''Fenway'',
     availability_365 = Fin 30, number_of_reviews = Fin 1, reviews_per_month = Fin 0,
     latitude = Number 42, longitude = Number (- 71), rating = Fin 0\<rparr>"

text \<open>A restaurant.\<close>

definition thai_place :: restaurant where
  "thai_place = \<lparr>Location = Text ''Fenway'', Cuisine = Text ''Thai'', details = []\<rparr>"

text \<open>A row of a frame that has no column \<open>rating\<close>.\<close>

definition listing_busy :: "float64 listing" where
  "listing_busy = \<lparr>name = Text ''E'', price = Fin 70, neighbourhood = Text ''Fenway'',
     availability_365 = Fin 30, number_of_reviews = Fin 40, reviews_per_month = Fin 2,
     latitude = Number 42, longitude = Number (- 71)\<rparr>"

section \<open>The lemmas on filter\_listings\<close>

lemma price_between_iff:
  "price_between lo hi r = (ge_scalar (price r) lo \<and> le_scalar (price r) hi)"
  by (cases "price r") (simp_all add: price_between_def)

lemma price_between_Fin: "price_between lo hi r \<Longrightarrow> \<exists>p. price r = Fin p \<and> lo \<le> p \<and> p \<le> hi"
  by (cases "price r") (simp_all add: price_between_def)

lemma eq_str_iff: "eq_str c s = (c = Text s)"
  by (cases c) auto

lemma filter_listings_None:
  "filter_listings data lo hi None = filter (price_between lo hi) data"
  by (simp add: filter_listings_def price_between_iff [abs_def])

lemma filter_listings_Some:
  "nb \<noteq> [] \<Longrightarrow> filter_listings data lo hi (Some nb) =
     filter (\<lambda>r. price_between lo hi r \<and> neighbourhood r = Text nb) data"
  by (simp add: filter_listings_def price_between_iff eq_str_iff)

lemma filter_listings_empty_string:
  "filter_listings data lo hi (Some []) = filter (price_between lo hi) data"
  by (simp add: filter_listings_def price_between_iff [abs_def])

lemma filter_listings_price:
  "r \<in> set (filter_listings data lo hi nb) \<Longrightarrow> price_between lo hi r"
  by (auto simp: filter_listings_def price_between_iff split: if_splits)

section \<open>PriceFilter\<close>

text \<open>
  Claim C10. Every row that \<open>filter_listings\<close> returns has a price that is present and
  not NaN, whatever the table (rows with a NaN price included), the bounds and the
  neighbourhood; the same holds for every row \<open>most_affordable_airbnbs_page\<close> returns,
  for any sort that returns a rearrangement of the rows it is given.
\<close>

theorem filter_listings_price_present:
  "(r \<in> set (filter_listings data lo hi nb) \<longrightarrow> (\<exists>p. price r = Fin p)) \<and>
   (mset (sort_values (filter_listings listings 0 200 (if sel = ''All'' then None else Some sel)))
      = mset (filter_listings listings 0 200 (if sel = ''All'' then None else Some sel)) \<longrightarrow>
    r' \<in> set (snd (most_affordable_airbnbs_page sort_values listings sel)) \<longrightarrow>
    (\<exists>p. price r' = Fin p))"
proof (intro conjI impI)
  assume "r \<in> set (filter_listings data lo hi nb)"
  then show "\<exists>p. price r = Fin p"
    using filter_listings_price [of r data lo hi nb] by (auto dest: price_between_Fin)
next
  let ?fl = "filter_listings listings 0 200 (if sel = ''All'' then None else Some sel)"
  assume perm: "mset (sort_values ?fl) = mset ?fl"
    and r': "r' \<in> set (snd (most_affordable_airbnbs_page sort_values listings sel))"
  from r' have "r' \<in> set (take 10 (sort_values ?fl))"
    by (simp add: most_affordable_airbnbs_page_def Let_def)
  then have "r' \<in> set (sort_values ?fl)"
    by (rule in_set_takeD)
  with perm have "r' \<in> set ?fl"
    by (metis set_mset_mset)
  then show "\<exists>p. price r' = Fin p"
    using filter_listings_price [of r' listings 0 200] by (auto dest: price_between_Fin)
qed

theorem filter_listings_price_present_witness:
  "filter_listings [listing_nan, listing_a, listing_dear] 0 200 None = [listing_a] \<and>
   snd (most_affordable_airbnbs_page stable_sort_by_price [listing_nan, listing_a, listing_dear] ''All'')
     = [listing_a] \<and>
   price listing_a = Fin 50"
  using filter_listings_price_present
    [of listing_a "[listing_nan, listing_a, listing_dear]" 0 200 None stable_sort_by_price
        "[listing_nan, listing_a, listing_dear]" "''All''" listing_a]
  by (simp add: filter_listings_def most_affordable_airbnbs_page_def
      listing_a_def listing_nan_def listing_dear_def)

text \<open>
  Claim C4, as the code has it. \<open>filter_listings\<close> returns, in table order, exactly
  the rows whose price lies in the closed interval from \<open>lo\<close> to \<open>hi\<close>; when a
  non-empty neighbourhood is given, exactly those of them whose neighbourhood cell is
  that text. With no neighbourhood, and with the empty string, only the price decides.
\<close>

theorem filter_listings_exact:
  "filter_listings data lo hi None = filter (price_between lo hi) data \<and>
   filter_listings data lo hi (Some []) = filter (price_between lo hi) data \<and>
   (nb \<noteq> [] \<longrightarrow>
      filter_listings data lo hi (Some nb) =
        filter (\<lambda>r. price_between lo hi r \<and> neighbourhood r = Text nb) data)"
  by (simp add: filter_listings_None filter_listings_empty_string filter_listings_Some)

theorem filter_listings_exact_witness:
  "''Fenway'' \<noteq> [] \<and>
   filter_listings [listing_a, listing_b, listing_nan, listing_dear] 50 250 (Some ''Fenway'')
     = [listing_b] \<and>
   filter_listings [listing_a, listing_b, listing_nan, listing_dear] 50 250 None
     = [listing_a, listing_b, listing_dear]"
  using filter_listings_exact
    [of "[listing_a, listing_b, listing_nan, listing_dear]" 50 250 "''Fenway''"]
  by (simp add: price_between_def listing_a_def listing_b_def listing_nan_def listing_dear_def)

text \<open>
  The claim as the specification states it fails for the empty string, a neighbourhood
  that is given and is not \<open>"All"\<close>: the result is not restricted to the rows of that
  neighbourhood.
\<close>

theorem filter_listings_empty_neighbourhood_counterexample:
  "filter_listings [listing_a] 0 200 (Some '''') = [listing_a] \<and>
   filter (\<lambda>r. price_between 0 200 r \<and> neighbourhood r = Text '''') [listing_a] = []"
  by (simp add: filter_listings_def price_between_def listing_a_def)

section \<open>The Loader\<close>

lemma read_files_failed: "failures fs = e # es \<Longrightarrow> read_files fs = Inl e"
  by (auto simp: failures_def read_files_def split: read.splits)

lemma read_files_loaded:
  "failures fs = [] \<Longrightarrow>
   \<exists>ls ns rvs rs. listings_csv fs = Loaded ls \<and> read_files fs = Inr (ls, ns, rvs, rs)"
  by (auto simp: failures_def read_files_def split: read.splits)

lemma load_data_failed:
  "failures fs = e # es \<Longrightarrow>
   load_data parse fs =
     (case e of
        FileNotFoundError \<Rightarrow> Inr ([File_not_found], None, None, None, None)
      | ParserError \<Rightarrow> Inr ([Error_parsing], None, None, None, None)
      | _ \<Rightarrow> Inl e)"
  by (simp add: load_data_def read_files_failed split: exn.splits)

lemma load_data_loaded:
  assumes "failures fs = []"
  obtains ls ns rvs rs where "listings_csv fs = Loaded ls"
    and "load_data parse fs =
       (case clean parse ls of
          Inl e \<Rightarrow> Inl e
        | Inr cleaned \<Rightarrow> Inr ([], Some cleaned, Some ns, Some rvs, Some rs))"
proof -
  from read_files_loaded [OF assms] obtain ls ns rvs rs
    where "listings_csv fs = Loaded ls" and "read_files fs = Inr (ls, ns, rvs, rs)"
    by blast
  then show thesis
    using that [of ls ns rvs rs] by (simp add: load_data_def)
qed

lemma load_data_tables:
  assumes "load_data parse fs = Inr (msgs, Some cleaned, ns, rvs, rs)"
  shows "\<exists>ls. listings_csv fs = Loaded ls \<and> clean parse ls = Inr cleaned"
proof (cases "failures fs")
  case Nil
  then obtain ls ns' rvs' rs' where ls: "listings_csv fs = Loaded ls"
    and eq: "load_data parse fs =
       (case clean parse ls of
          Inl e \<Rightarrow> Inl e
        | Inr cleaned \<Rightarrow> Inr ([], Some cleaned, Some ns', Some rvs', Some rs'))"
    by (rule load_data_loaded)
  from eq assms have "clean parse ls = Inr cleaned"
    by (cases "clean parse ls") simp_all
  with ls show ?thesis by blast
next
  case (Cons e es)
  from load_data_failed [OF Cons, of parse] assms show ?thesis
    by (cases e) simp_all
qed

text \<open>
  What the two \<open>except\<close> clauses achieve. When a read fails and every failure is a
  FileNotFoundError or a ParserError, \<open>load_data\<close> shows one error message and
  returns the tuple of four \<open>None\<close>. Whatever the reads do, a tuple that \<open>load_data\<close>
  returns is never partial: it holds four \<open>None\<close> with a message after a failure, or
  four tables with no message and no failure.
\<close>

theorem load_data_all_or_nothing:
  "(failures fs \<noteq> [] \<and> set (failures fs) \<subseteq> {FileNotFoundError, ParserError} \<longrightarrow>
      load_data parse fs =
        Inr ([if hd (failures fs) = FileNotFoundError then File_not_found else Error_parsing],
             None, None, None, None)) \<and>
   (load_data parse fs = Inr (msgs, l, n, rv, rs) \<longrightarrow>
      (l = None \<and> n = None \<and> rv = None \<and> rs = None \<and> msgs \<noteq> [] \<and> failures fs \<noteq> []) \<or>
      (l \<noteq> None \<and> n \<noteq> None \<and> rv \<noteq> None \<and> rs \<noteq> None \<and> msgs = [] \<and> failures fs = []))"
proof (cases "failures fs")
  case Nil
  then obtain ls ns' rvs' rs' where
    eq: "load_data parse fs =
       (case clean parse ls of
          Inl e \<Rightarrow> Inl e
        | Inr cleaned \<Rightarrow> Inr ([], Some cleaned, Some ns', Some rvs', Some rs'))"
    by (rule load_data_loaded)
  show ?thesis
    by (cases "clean parse ls") (auto simp: Nil eq)
next
  case (Cons e es)
  from load_data_failed [OF Cons, of parse] show ?thesis
    by (cases e) (auto simp: Cons)
qed

theorem load_data_all_or_nothing_witness:
  "failures files_missing = [FileNotFoundError, ParserError] \<and>
   load_data parse_example files_missing = Inr ([File_not_found], None, None, None, None)"
  using load_data_all_or_nothing [of files_missing parse_example]
  by (simp add: failures_def files_missing_def)

text \<open>
  Claim C9 at inputs where the code departs from it. The restaurants file is not a
  readable Excel file, or the listings file is empty: a source fails to load because its
  content cannot be parsed. The claim, and the comment of line 43, have \<open>load_data\<close>
  report the failure and return four \<open>None\<close>. The exceptions pandas raises here are
  neither FileNotFoundError nor ParserError, so no \<open>except\<close> clause catches them:
  the exception leaves \<open>load_data\<close>, which returns nothing and shows no message.
\<close>

theorem load_data_unparseable_raises:
  "failures files_bad_excel = [ValueError] \<and>
   load_data parse_example files_bad_excel = Inl ValueError \<and>
   failures files_empty_csv = [EmptyDataError] \<and>
   load_data parse_example files_empty_csv = Inl EmptyDataError"
  by (simp add: load_data_def read_files_def failures_def files_bad_excel_def files_empty_csv_def)

section \<open>The Cleaner\<close>

lemma map_rows_Inr:
  "map_rows f xs = Inr ys \<Longrightarrow> y \<in> set ys \<Longrightarrow> \<exists>x \<in> set xs. f x = Inr y"
proof (induction xs arbitrary: ys)
  case Nil
  then show ?case by simp
next
  case (Cons x xs)
  from Cons.prems(1) obtain z zs where fx: "f x = Inr z"
    and rest: "map_rows f xs = Inr zs" and ys: "ys = z # zs"
    by (auto split: sum.splits)
  show ?case
  proof (cases "y = z")
    case True
    with fx show ?thesis by simp
  next
    case False
    with Cons.prems(2) ys have "y \<in> set zs" by simp
    with Cons.IH [OF rest] show ?thesis by auto
  qed
qed

lemma clean_rows:
  assumes "clean parse ls = Inr cleaned" and "r \<in> set cleaned"
  shows "\<exists>raw \<in> set ls.
           price raw \<noteq> Missing \<and> availability_365 raw \<noteq> Missing \<and>
           neighbourhood raw \<noteq> Missing \<and> number_of_reviews raw \<noteq> Missing \<and>
           clean_row parse raw = Inr r"
  using map_rows_Inr [of "clean_row parse" "dropna ls" cleaned r] assms
  by (auto simp: clean_def dropna_def)

lemma to_numeric_Fin: "(\<exists>p. to_numeric parse c = Fin p) = coercible parse c"
  by (cases c) (auto split: option.splits)

lemma apply_rating_fillna:
  "apply_rating (fillna 0 c) = Inr (rpm, rt) \<Longrightarrow>
   \<exists>x. rpm = Fin x \<and> rt = Fin (min (x * 5) 5) \<and> (c = Missing \<longrightarrow> x = 0)"
  by (cases c) (auto simp: min_def)

lemma clean_row_rating:
  assumes "clean_row parse raw = Inr r"
  shows "\<exists>x. reviews_per_month r = Fin x \<and> rating r = Fin (min (x * 5) 5)"
proof -
  from assms obtain rpm rt
    where ap: "apply_rating (fillna 0 (reviews_per_month raw)) = Inr (rpm, rt)"
    and "reviews_per_month r = rpm" and "rating r = rt"
    by (auto simp: clean_row_def split: sum.splits)
  with apply_rating_fillna [OF ap] show ?thesis by auto
qed

lemma clean_row_coerced:
  assumes "clean_row parse raw = Inr r"
  shows "name r = name raw \<and> neighbourhood r = neighbourhood raw \<and>
         price r = to_numeric parse (price raw) \<and>
         availability_365 r = to_numeric parse (availability_365 raw) \<and>
         number_of_reviews r = to_numeric parse (number_of_reviews raw)"
  using assms by (auto simp: clean_row_def split: sum.splits)

text \<open>
  Claim C1. In every row of the listings table that \<open>load_data\<close> returns,
  \<open>reviews_per_month\<close> is a number \<open>x\<close> and \<open>rating\<close> is the smaller of \<open>x * 5\<close> and 5.
  So the rating is at most 5, it is at least 0 when \<open>x\<close> is, and it is 0 exactly when
  \<open>x\<close> is 0.
\<close>

theorem load_data_rating:
  assumes "load_data parse fs = Inr (msgs, Some cleaned, ns, rvs, rs)"
    and "r \<in> set cleaned"
  shows "\<exists>x v. reviews_per_month r = Fin x \<and> rating r = Fin v \<and> v = min (x * 5) 5 \<and>
           v \<le> 5 \<and> (0 \<le> x \<longrightarrow> 0 \<le> v) \<and> (v = 0 \<longleftrightarrow> x = 0)"
proof -
  from load_data_tables [OF assms(1)] obtain ls where "clean parse ls = Inr cleaned"
    by blast
  from clean_rows [OF this assms(2)] obtain raw where "clean_row parse raw = Inr r"
    by blast
  from clean_row_rating [OF this] obtain x
    where "reviews_per_month r = Fin x" and "rating r = Fin (min (x * 5) 5)"
    by blast
  moreover have "min (x * 5) 5 \<le> 5" by simp
  moreover have "0 \<le> x \<longrightarrow> 0 \<le> min (x * 5) 5" by simp
  moreover have "min (x * 5) 5 = 0 \<longleftrightarrow> x = 0" by (auto simp: min_def)
  ultimately show ?thesis by blast
qed

theorem load_data_rating_witness:
  "load_data parse_example files_ok =
     Inr ([], Some [cleaned_loft, cleaned_text_price],
          Some [Text ''Back Bay'', Text ''Fenway''], Some [], Some []) \<and>
   (\<exists>x v. reviews_per_month cleaned_loft = Fin x \<and> rating cleaned_loft = Fin v \<and>
      v = min (x * 5) 5 \<and> v \<le> 5 \<and> 0 \<le> x \<and> 0 \<le> v \<and> v \<noteq> 0 \<and> x \<noteq> 0)"
proof -
  have run: "load_data parse_example files_ok =
     Inr ([], Some [cleaned_loft, cleaned_text_price],
          Some [Text ''Back Bay'', Text ''Fenway''], Some [], Some [])"
    by (simp add: load_data_def read_files_def files_ok_def clean_def dropna_def clean_row_def
        raw_loft_def raw_text_price_def raw_no_price_def parse_example_def
        cleaned_loft_def cleaned_text_price_def)
  have "cleaned_loft \<in> set [cleaned_loft, cleaned_text_price]" by simp
  from load_data_rating [OF run this] have
    "\<exists>x v. reviews_per_month cleaned_loft = Fin x \<and> rating cleaned_loft = Fin v \<and>
       v = min (x * 5) 5 \<and> v \<le> 5 \<and> (0 \<le> x \<longrightarrow> 0 \<le> v) \<and> (v = 0 \<longleftrightarrow> x = 0)" .
  then have "\<exists>x v. reviews_per_month cleaned_loft = Fin x \<and> rating cleaned_loft = Fin v \<and>
      v = min (x * 5) 5 \<and> v \<le> 5 \<and> 0 \<le> x \<and> 0 \<le> v \<and> v \<noteq> 0 \<and> x \<noteq> 0"
    by (auto simp: cleaned_loft_def)
  with run show ?thesis by blast
qed

lemma map_rows_all2:
  "map_rows f xs = Inr ys \<Longrightarrow> list_all2 (\<lambda>x y. f x = Inr y) xs ys"
proof (induction xs arbitrary: ys)
  case Nil
  then show ?case by simp
next
  case (Cons x xs)
  from Cons.prems obtain z zs where "f x = Inr z"
    and "map_rows f xs = Inr zs" and "ys = z # zs"
    by (auto split: sum.splits)
  with Cons.IH [of zs] show ?case
    by simp
qed

text \<open>
  Claim C2, as the code has it. The listings table that \<open>load_data\<close> returns has one
  row, in table order, for each raw row whose price, availability, neighbourhood and
  review count are not missing: no row is dropped after the coercion. In that row each
  of the three coerced columns holds a number when the raw cell is a number or text that
  reads as one, and NaN otherwise. The rating is a number, at most 5, and at least 0 when
  \<open>reviews_per_month\<close> is.
\<close>

theorem load_data_cleaned_rows:
  assumes "load_data parse fs = Inr (msgs, Some cleaned, ns, rvs, rs)"
  shows "\<exists>ls. listings_csv fs = Loaded ls \<and>
           length cleaned =
             length (filter (\<lambda>raw. price raw \<noteq> Missing \<and> availability_365 raw \<noteq> Missing \<and>
                neighbourhood raw \<noteq> Missing \<and> number_of_reviews raw \<noteq> Missing) ls) \<and>
           list_all2
             (\<lambda>raw r.
                name r = name raw \<and> neighbourhood r = neighbourhood raw \<and>
                price r = to_numeric parse (price raw) \<and>
                availability_365 r = to_numeric parse (availability_365 raw) \<and>
                number_of_reviews r = to_numeric parse (number_of_reviews raw) \<and>
                ((\<exists>p. price r = Fin p) \<longleftrightarrow> coercible parse (price raw)) \<and>
                (price r = NaN \<longleftrightarrow> \<not> coercible parse (price raw)) \<and>
                ((\<exists>a. availability_365 r = Fin a) \<longleftrightarrow> coercible parse (availability_365 raw)) \<and>
                (availability_365 r = NaN \<longleftrightarrow> \<not> coercible parse (availability_365 raw)) \<and>
                ((\<exists>n. number_of_reviews r = Fin n) \<longleftrightarrow> coercible parse (number_of_reviews raw)) \<and>
                (number_of_reviews r = NaN \<longleftrightarrow> \<not> coercible parse (number_of_reviews raw)) \<and>
                (\<exists>x v. reviews_per_month r = Fin x \<and> rating r = Fin v \<and> v \<le> 5 \<and>
                       (0 \<le> x \<longrightarrow> 0 \<le> v)))
             (filter (\<lambda>raw. price raw \<noteq> Missing \<and> availability_365 raw \<noteq> Missing \<and>
                             neighbourhood raw \<noteq> Missing \<and> number_of_reviews raw \<noteq> Missing) ls)
             cleaned"
proof -
  from load_data_tables [OF assms] obtain ls
    where ls: "listings_csv fs = Loaded ls" and cl: "clean parse ls = Inr cleaned"
    by blast
  from cl have "list_all2 (\<lambda>raw r. clean_row parse raw = Inr r) (dropna ls) cleaned"
    unfolding clean_def by (rule map_rows_all2)
  then have rows: "list_all2
             (\<lambda>raw r.
                name r = name raw \<and> neighbourhood r = neighbourhood raw \<and>
                price r = to_numeric parse (price raw) \<and>
                availability_365 r = to_numeric parse (availability_365 raw) \<and>
                number_of_reviews r = to_numeric parse (number_of_reviews raw) \<and>
                ((\<exists>p. price r = Fin p) \<longleftrightarrow> coercible parse (price raw)) \<and>
                (price r = NaN \<longleftrightarrow> \<not> coercible parse (price raw)) \<and>
                ((\<exists>a. availability_365 r = Fin a) \<longleftrightarrow> coercible parse (availability_365 raw)) \<and>
                (availability_365 r = NaN \<longleftrightarrow> \<not> coercible parse (availability_365 raw)) \<and>
                ((\<exists>n. number_of_reviews r = Fin n) \<longleftrightarrow> coercible parse (number_of_reviews raw)) \<and>
                (number_of_reviews r = NaN \<longleftrightarrow> \<not> coercible parse (number_of_reviews raw)) \<and>
                (\<exists>x v. reviews_per_month r = Fin x \<and> rating r = Fin v \<and> v \<le> 5 \<and>
                       (0 \<le> x \<longrightarrow> 0 \<le> v)))
             (dropna ls) cleaned"
  proof (rule list_all2_mono)
    fix raw r
    assume row: "clean_row parse raw = Inr r"
    from clean_row_rating [OF row] obtain x
      where x: "reviews_per_month r = Fin x" "rating r = Fin (min (x * 5) 5)"
      by blast
    have "min (x * 5) 5 \<le> 5" and "0 \<le> x \<longrightarrow> 0 \<le> min (x * 5) 5"
      by simp_all
    with x have rt: "\<exists>x v. reviews_per_month r = Fin x \<and> rating r = Fin v \<and> v \<le> 5 \<and>
                  (0 \<le> x \<longrightarrow> 0 \<le> v)"
      by blast
    from clean_row_coerced [OF row] have co:
      "name r = name raw" "neighbourhood r = neighbourhood raw"
      "price r = to_numeric parse (price raw)"
      "availability_365 r = to_numeric parse (availability_365 raw)"
      "number_of_reviews r = to_numeric parse (number_of_reviews raw)"
      by simp_all
    have fin: "(\<exists>p. to_numeric parse c = Fin p) \<longleftrightarrow> coercible parse c"
      and nan: "to_numeric parse c = NaN \<longleftrightarrow> \<not> coercible parse c" for c
      by (cases c; simp split: option.splits)+
    from co rt show "name r = name raw \<and> neighbourhood r = neighbourhood raw \<and>
                price r = to_numeric parse (price raw) \<and>
                availability_365 r = to_numeric parse (availability_365 raw) \<and>
                number_of_reviews r = to_numeric parse (number_of_reviews raw) \<and>
                ((\<exists>p. price r = Fin p) \<longleftrightarrow> coercible parse (price raw)) \<and>
                (price r = NaN \<longleftrightarrow> \<not> coercible parse (price raw)) \<and>
                ((\<exists>a. availability_365 r = Fin a) \<longleftrightarrow> coercible parse (availability_365 raw)) \<and>
                (availability_365 r = NaN \<longleftrightarrow> \<not> coercible parse (availability_365 raw)) \<and>
                ((\<exists>n. number_of_reviews r = Fin n) \<longleftrightarrow> coercible parse (number_of_reviews raw)) \<and>
                (number_of_reviews r = NaN \<longleftrightarrow> \<not> coercible parse (number_of_reviews raw)) \<and>
                (\<exists>x v. reviews_per_month r = Fin x \<and> rating r = Fin v \<and> v \<le> 5 \<and>
                       (0 \<le> x \<longrightarrow> 0 \<le> v))"
      by (simp only: fin nan simp_thms)
  qed
  from rows have "length cleaned = length (dropna ls)"
    by (simp add: list_all2_lengthD)
  with ls rows show ?thesis
    unfolding dropna_def by blast
qed

theorem load_data_cleaned_rows_witness:
  "load_data parse_example files_ok =
     Inr ([], Some [cleaned_loft, cleaned_text_price],
          Some [Text ''Back Bay'', Text ''Fenway''], Some [], Some []) \<and>
   listings_csv files_ok = Loaded [raw_loft, raw_text_price, raw_no_price] \<and>
   filter (\<lambda>raw. price raw \<noteq> Missing \<and> availability_365 raw \<noteq> Missing \<and>
                  neighbourhood raw \<noteq> Missing \<and> number_of_reviews raw \<noteq> Missing)
     [raw_loft, raw_text_price, raw_no_price] = [raw_loft, raw_text_price] \<and>
   \<not> coercible parse_example (price raw_text_price) \<and> price cleaned_text_price = NaN \<and>
   coercible parse_example (availability_365 raw_loft) \<and>
   availability_365 cleaned_loft = to_numeric parse_example (availability_365 raw_loft) \<and>
   availability_365 cleaned_loft = Fin 120"
proof -
  have run: "load_data parse_example files_ok =
     Inr ([], Some [cleaned_loft, cleaned_text_price],
          Some [Text ''Back Bay'', Text ''Fenway''], Some [], Some [])"
    by (simp add: load_data_def read_files_def files_ok_def clean_def dropna_def clean_row_def
        raw_loft_def raw_text_price_def raw_no_price_def parse_example_def
        cleaned_loft_def cleaned_text_price_def)
  have ls: "listings_csv files_ok = Loaded [raw_loft, raw_text_price, raw_no_price]"
    by (simp add: files_ok_def)
  have kept: "filter (\<lambda>raw. price raw \<noteq> Missing \<and> availability_365 raw \<noteq> Missing \<and>
                  neighbourhood raw \<noteq> Missing \<and> number_of_reviews raw \<noteq> Missing)
     [raw_loft, raw_text_price, raw_no_price] = [raw_loft, raw_text_price]"
    by (simp add: raw_loft_def raw_text_price_def raw_no_price_def)
  from load_data_cleaned_rows [OF run] have
    "price cleaned_text_price = NaN \<longleftrightarrow> \<not> coercible parse_example (price raw_text_price)"
    "availability_365 cleaned_loft = to_numeric parse_example (availability_365 raw_loft)"
    unfolding ls read.inject ex_simps simp_thms kept list_all2_Cons list_all2_Nil by blast+
  moreover have "\<not> coercible parse_example (price raw_text_price)"
    "coercible parse_example (availability_365 raw_loft)"
    "to_numeric parse_example (availability_365 raw_loft) = Fin 120"
    by (simp_all add: raw_text_price_def raw_loft_def parse_example_def)
  ultimately show ?thesis
    using run ls kept by simp
qed

text \<open>
  The claim as the specification states it fails: a price that is text and does not read
  as a number survives \<open>dropna\<close>, is coerced to NaN, and its row stays in the cleaned
  table; and a negative \<open>reviews_per_month\<close> gives a negative rating.
\<close>

theorem load_data_nan_price_counterexample:
  "load_data parse_example files_negative =
     Inr ([], Some [cleaned_text_price, cleaned_negative], Some [Text ''Fenway''], Some [], Some []) \<and>
   price raw_text_price = Text ''abc'' \<and> price cleaned_text_price = NaN \<and>
   reviews_per_month raw_negative = Number (- 1) \<and> rating cleaned_negative = Fin (- 5)"
  by (simp add: load_data_def read_files_def files_negative_def clean_def dropna_def
      clean_row_def raw_text_price_def raw_negative_def parse_example_def
      cleaned_text_price_def cleaned_negative_def)

section \<open>AffordableFilter\<close>

lemma sort_le_total: "sort_le x y \<or> sort_le y x"
  by (cases x; cases y) auto

lemma sort_le_trans: "sort_le x y \<Longrightarrow> sort_le y z \<Longrightarrow> sort_le x z"
  by (cases x; cases y; cases z) auto

lemma mset_insert_by_price: "mset (insert_by_price x xs) = add_mset x (mset xs)"
  by (induction xs) auto

lemma set_insert_by_price: "set (insert_by_price x xs) = insert x (set xs)"
  by (induction xs) auto

lemma sorted_insert_by_price:
  "sorted_wrt (\<lambda>a b. sort_le (price a) (price b)) xs \<Longrightarrow>
   sorted_wrt (\<lambda>a b. sort_le (price a) (price b)) (insert_by_price x xs)"
proof (induction xs)
  case Nil
  then show ?case by simp
next
  case (Cons y ys)
  show ?case
  proof (cases "sort_le (price x) (price y)")
    case True
    with Cons.prems show ?thesis
      by (auto intro: sort_le_trans)
  next
    case False
    then have "sort_le (price y) (price x)"
      using sort_le_total [of "price x" "price y"] by simp
    with False Cons show ?thesis
      by (auto simp: set_insert_by_price)
  qed
qed

lemma stable_sort_sorts: "sorts_by_price xs (stable_sort_by_price xs)"
  unfolding sorts_by_price_def
  by (induction xs) (simp_all add: mset_insert_by_price sorted_insert_by_price)

lemma reversing_sort_sorts: "sorts_by_price xs (reversing_sort_by_price xs)"
  using stable_sort_sorts [of "rev xs"]
  by (simp add: sorts_by_price_def reversing_sort_by_price_def)

text \<open>
  On rows whose prices are all numbers, any two ascending arrangements have the same
  price column: only the order of rows with equal prices is open.
\<close>

lemma sorted_prices_unique:
  assumes fin: "\<And>r. r \<in> set xs \<Longrightarrow> \<exists>p. price r = Fin p"
    and ys: "sorts_by_price xs ys" and zs: "sorts_by_price xs zs"
  shows "map price ys = map price zs"
proof -
  let ?pv = "\<lambda>r::rated. case price r of Fin p \<Rightarrow> p | NaN \<Rightarrow> 0"
  have key: "map price us = map Fin (sort (map ?pv xs))"
    if us: "sorts_by_price xs us" for us
  proof -
    from us have m: "mset us = mset xs"
      and s: "sorted_wrt (\<lambda>a b. sort_le (price a) (price b)) us"
      by (simp_all add: sorts_by_price_def)
    from m have "set us = set xs"
      by (metis set_mset_mset)
    with fin have fin': "\<And>r. r \<in> set us \<Longrightarrow> \<exists>p. price r = Fin p"
      by simp
    have "sorted_wrt (\<lambda>a b. ?pv a \<le> ?pv b) us"
    proof (rule sorted_wrt_mono_rel [OF _ s])
      fix a b
      assume "a \<in> set us" "b \<in> set us" "sort_le (price a) (price b)"
      with fin' [of a] fin' [of b] show "?pv a \<le> ?pv b"
        by auto
    qed
    then have "sorted (map ?pv us)"
      by (simp add: sorted_wrt_map)
    moreover from m have "mset (map ?pv us) = mset (map ?pv xs)"
      by simp
    ultimately have srt: "sort (map ?pv xs) = map ?pv us"
      by (rule properties_for_sort [rotated])
    have "price r = Fin (?pv r)" if "r \<in> set us" for r
      using fin' [OF that] by auto
    then have "map price us = map Fin (map ?pv us)"
      by simp
    then show ?thesis
      by (simp only: srt)
  qed
  from key [OF ys] key [OF zs] show ?thesis
    by (rule trans [OF _ sym])
qed

text \<open>
  Claim C3, as the code has it. For any sort that puts the rows it is given in ascending
  order of price, \<open>most_affordable_airbnbs_page\<close> returns the first rows, at most ten,
  of the sorted result of \<open>filter_listings listings 0 200\<close> with the selected
  neighbourhood (none for \<open>"All"\<close>). The result has at most ten rows, each with a price
  from 0 to 200, in ascending order of price, and its price column is the one the stable
  sort gives. Which of several rows with equal prices come first is left to the sort.
\<close>

theorem most_affordable_sorted_top10:
  assumes "sorts_by_price
     (filter_listings listings 0 200 (if sel = ''All'' then None else Some sel))
     (sort_values (filter_listings listings 0 200 (if sel = ''All'' then None else Some sel)))"
  shows "snd (most_affordable_airbnbs_page sort_values listings sel) =
           take 10 (sort_values
             (filter_listings listings 0 200 (if sel = ''All'' then None else Some sel))) \<and>
         length (snd (most_affordable_airbnbs_page sort_values listings sel)) \<le> 10 \<and>
         (\<forall>r \<in> set (snd (most_affordable_airbnbs_page sort_values listings sel)).
            price_between 0 200 r) \<and>
         sorted_wrt (\<lambda>a b. sort_le (price a) (price b))
           (snd (most_affordable_airbnbs_page sort_values listings sel)) \<and>
         map price (snd (most_affordable_airbnbs_page sort_values listings sel)) =
           map price (take 10 (stable_sort_by_price
             (filter_listings listings 0 200 (if sel = ''All'' then None else Some sel))))"
proof -
  let ?fl = "filter_listings listings 0 200 (if sel = ''All'' then None else Some sel)"
  let ?res = "snd (most_affordable_airbnbs_page sort_values listings sel)"
  have res: "?res = take 10 (sort_values ?fl)"
    by (simp add: most_affordable_airbnbs_page_def Let_def)
  from assms have m: "mset (sort_values ?fl) = mset ?fl"
    and s: "sorted_wrt (\<lambda>a b. sort_le (price a) (price b)) (sort_values ?fl)"
    by (simp_all add: sorts_by_price_def)
  have len: "length ?res \<le> 10"
    by (simp add: res)
  have range: "\<forall>r \<in> set ?res. price_between 0 200 r"
  proof
    fix r
    assume "r \<in> set ?res"
    then have "r \<in> set (sort_values ?fl)"
      unfolding res by (rule in_set_takeD)
    with m have "r \<in> set ?fl"
      by (metis set_mset_mset)
    then show "price_between 0 200 r"
      by (rule filter_listings_price)
  qed
  have sorted: "sorted_wrt (\<lambda>a b. sort_le (price a) (price b)) ?res"
    unfolding res using s by (rule sorted_wrt_take)
  have eq: "map price (sort_values ?fl) = map price (stable_sort_by_price ?fl)"
  proof (rule sorted_prices_unique [OF _ assms stable_sort_sorts])
    fix r
    assume "r \<in> set ?fl"
    then have "price_between 0 200 r"
      by (rule filter_listings_price)
    then show "\<exists>p. price r = Fin p"
      by (auto dest: price_between_Fin)
  qed
  have "take 10 (map price (sort_values ?fl)) = take 10 (map price (stable_sort_by_price ?fl))"
    by (simp only: eq)
  then have prices: "map price ?res = map price (take 10 (stable_sort_by_price ?fl))"
    by (simp only: res take_map)
  from res len range sorted prices show ?thesis
    by blast
qed

theorem most_affordable_sorted_top10_witness:
  "sorts_by_price
     (filter_listings [listing_dear, listing_b, listing_nan, listing_a] 0 200 None)
     (stable_sort_by_price (filter_listings [listing_dear, listing_b, listing_nan, listing_a] 0 200 None)) \<and>
   snd (most_affordable_airbnbs_page stable_sort_by_price
          [listing_dear, listing_b, listing_nan, listing_a] ''All'') = [listing_b, listing_a] \<and>
   price_between 0 200 listing_b \<and> price_between 0 200 listing_a"
proof -
  let ?t = "[listing_dear, listing_b, listing_nan, listing_a]"
  have fl: "filter_listings ?t 0 200 None = [listing_b, listing_a]"
    by (simp add: filter_listings_def listing_a_def listing_b_def listing_nan_def listing_dear_def)
  have st: "stable_sort_by_price [listing_b, listing_a] = [listing_b, listing_a]"
    by (simp add: listing_a_def listing_b_def)
  have sel: "(if ''All'' = ''All'' then None else Some ''All'') = (None :: string option)"
    by simp
  have pre: "sorts_by_price (filter_listings ?t 0 200 None)
     (stable_sort_by_price (filter_listings ?t 0 200 None))"
    by (rule stable_sort_sorts)
  from most_affordable_sorted_top10 [of ?t "''All''" stable_sort_by_price] pre
  have "snd (most_affordable_airbnbs_page stable_sort_by_price ?t ''All'') =
          take 10 (stable_sort_by_price (filter_listings ?t 0 200 None)) \<and>
        (\<forall>r \<in> set (snd (most_affordable_airbnbs_page stable_sort_by_price ?t ''All'')).
            price_between 0 200 r)"
    unfolding sel by blast
  then have "snd (most_affordable_airbnbs_page stable_sort_by_price ?t ''All'')
      = [listing_b, listing_a] \<and> price_between 0 200 listing_b \<and> price_between 0 200 listing_a"
    unfolding fl st by simp
  with pre show ?thesis by simp
qed

text \<open>
  The claim as the specification states it fails: the sort is not stable. On the table
  with the prices 60, 60, 50, 50 the default sort of pandas lists the rows in the order
  fourth, third, second, first: ascending by price, with both pairs of equal prices in
  reverse table order. \<open>reversing_sort_by_price\<close> is an ascending sort that returns
  this order; the stable sort returns third, fourth, first, second.
\<close>

theorem most_affordable_unstable_counterexample:
  "map price [listing_60_first, listing_60_second, listing_50_first, listing_50_second]
     = [Fin 60, Fin 60, Fin 50, Fin 50] \<and>
   sorts_by_price
     (filter_listings [listing_60_first, listing_60_second, listing_50_first, listing_50_second]
        0 200 None)
     (reversing_sort_by_price
        (filter_listings [listing_60_first, listing_60_second, listing_50_first, listing_50_second]
           0 200 None)) \<and>
   snd (most_affordable_airbnbs_page reversing_sort_by_price
          [listing_60_first, listing_60_second, listing_50_first, listing_50_second] ''All'')
     = [listing_50_second, listing_50_first, listing_60_second, listing_60_first] \<and>
   take 10 (stable_sort_by_price
     (filter_listings [listing_60_first, listing_60_second, listing_50_first, listing_50_second]
        0 200 None))
     = [listing_50_first, listing_50_second, listing_60_first, listing_60_second] \<and>
   [listing_50_second, listing_50_first, listing_60_second, listing_60_first]
     \<noteq> [listing_50_first, listing_50_second, listing_60_first, listing_60_second]"
proof -
  let ?t = "[listing_60_first, listing_60_second, listing_50_first, listing_50_second]"
  have pr: "map price ?t = [Fin 60, Fin 60, Fin 50, Fin 50]"
    by (simp add: listing_60_first_def listing_60_second_def
        listing_50_first_def listing_50_second_def)
  have fl: "filter_listings ?t 0 200 None = ?t"
    by (simp add: filter_listings_def listing_60_first_def listing_60_second_def
        listing_50_first_def listing_50_second_def)
  have st: "stable_sort_by_price ?t
      = [listing_50_first, listing_50_second, listing_60_first, listing_60_second]"
    by (simp add: listing_60_first_def listing_60_second_def
        listing_50_first_def listing_50_second_def)
  have rv: "reversing_sort_by_price ?t
      = [listing_50_second, listing_50_first, listing_60_second, listing_60_first]"
    by (simp add: reversing_sort_by_price_def listing_60_first_def listing_60_second_def
        listing_50_first_def listing_50_second_def)
  have ne: "listing_50_second \<noteq> listing_50_first"
    by (simp add: listing_50_first_def listing_50_second_def)
  have "snd (most_affordable_airbnbs_page reversing_sort_by_price ?t ''All'')
     = [listing_50_second, listing_50_first, listing_60_second, listing_60_first]"
    by (simp add: most_affordable_airbnbs_page_def fl rv)
  moreover have "take 10 (stable_sort_by_price (filter_listings ?t 0 200 None))
     = [listing_50_first, listing_50_second, listing_60_first, listing_60_second]"
    unfolding fl st by simp
  moreover have "sorts_by_price (filter_listings ?t 0 200 None)
     (reversing_sort_by_price (filter_listings ?t 0 200 None))"
    by (rule reversing_sort_sorts)
  moreover from ne have
    "[listing_50_second, listing_50_first, listing_60_second, listing_60_first]
       \<noteq> [listing_50_first, listing_50_second, listing_60_first, listing_60_second]"
    by simp
  ultimately show ?thesis
    using pr by blast
qed

section \<open>RatingFilter\<close>

lemma high_rating_names_text:
  "(\<And>r. r \<in> set rs \<Longrightarrow> \<exists>s. name r = Text s) \<Longrightarrow> \<exists>ns. high_rating_names rs = Inr ns"
proof (induction rs)
  case Nil
  then show ?case by simp
next
  case (Cons r rs)
  from Cons.prems [of r] obtain s where "name r = Text s"
    by auto
  moreover from Cons have "\<exists>ns. high_rating_names rs = Inr ns"
    by simp
  ultimately show ?case
    by auto
qed

lemma high_rating_names_not_text:
  "r \<in> set rs \<Longrightarrow> \<forall>s. name r \<noteq> Text s \<Longrightarrow> high_rating_names rs = Inl TypeError"
proof (induction rs)
  case Nil
  then show ?case by simp
next
  case (Cons a rs)
  show ?case
  proof (cases "name a")
    case (Text s)
    with Cons have "high_rating_names rs = Inl TypeError"
      by auto
    with Text show ?thesis by simp
  qed simp_all
qed

lemma isin_iff: "isin c vs = (\<exists>s \<in> set vs. c = Text s)"
  by (cases c) auto

text \<open>
  When every row at or above the threshold has a text name, the page returns exactly the
  rows with a rating at or above the threshold, in table order, restricted to the
  selected neighbourhoods when some are selected; a higher threshold then returns a
  sublist of what a lower one returns.
\<close>

lemma top_rated_named_rows:
  assumes "\<And>r. r \<in> set rs \<Longrightarrow> ge_scalar (rating r) min_rating \<Longrightarrow> \<exists>s. name r = Text s"
  shows "top_rated_airbnbs_page (With_rating rs) min_rating sel =
           (With_rating rs,
            Inr (filter (\<lambda>r. ge_scalar (rating r) min_rating \<and>
                              (sel = [] \<or> (\<exists>s \<in> set sel. neighbourhood r = Text s))) rs))"
proof -
  from assms have "\<exists>ns. high_rating_names (filter (\<lambda>r. ge_scalar (rating r) min_rating) rs) = Inr ns"
    by (intro high_rating_names_text) simp
  then obtain ns where "high_rating_names (filter (\<lambda>r. ge_scalar (rating r) min_rating) rs) = Inr ns"
    by blast
  then show ?thesis
    by (auto simp: top_rated_airbnbs_page_def Let_def isin_iff intro: filter_cong)
qed

lemma ge_scalar_mono: "ge_scalar v hi \<Longrightarrow> lo \<le> hi \<Longrightarrow> ge_scalar v lo"
  by (cases v) auto

lemma top_rated_narrowing:
  assumes "top_rated_airbnbs_page (With_rating rs) hi sel = (f, Inr high)"
    and "top_rated_airbnbs_page (With_rating rs) lo sel = (f', Inr low)"
    and "lo \<le> hi"
  shows "set high \<subseteq> set low"
proof -
  from assms(1) have high: "high = (if sel \<noteq> [] then filter (\<lambda>r. isin (neighbourhood r) sel)
      (filter (\<lambda>r. ge_scalar (rating r) hi) rs) else filter (\<lambda>r. ge_scalar (rating r) hi) rs)"
    by (auto simp: top_rated_airbnbs_page_def Let_def split: sum.splits)
  from assms(2) have low: "low = (if sel \<noteq> [] then filter (\<lambda>r. isin (neighbourhood r) sel)
      (filter (\<lambda>r. ge_scalar (rating r) lo) rs) else filter (\<lambda>r. ge_scalar (rating r) lo) rs)"
    by (auto simp: top_rated_airbnbs_page_def Let_def split: sum.splits)
  from assms(3) show ?thesis
    unfolding high low by (auto intro: ge_scalar_mono)
qed

text \<open>
  Claim C5 at an input where the code departs from it. The cleaned table has a row with a
  missing name and the rating 5. At the threshold 4.5 the claim has the page return that
  row; the code raises TypeError in line 101, where \<open>len\<close> is applied to the name.
\<close>

theorem top_rated_missing_name_raises:
  "name listing_unnamed = Missing \<and> ge_scalar (rating listing_unnamed) (9 / 2) \<and>
   top_rated_airbnbs_page (With_rating [listing_a, listing_unnamed]) (9 / 2) [] =
     (With_rating [listing_a, listing_unnamed], Inl TypeError)"
  by (simp add: top_rated_airbnbs_page_def Let_def listing_a_def listing_unnamed_def)

text \<open>
  Claim C6. On a frame without the column \<open>rating\<close> the page adds the column as
  \<open>reviews_per_month * 5\<close>, with no cap, and filters on it. For a row with
  \<open>reviews_per_month\<close> above 1 this rating is above 5, while the rating \<open>load_data\<close>
  derives from the same value is 5.
\<close>

theorem inline_rating_uncapped:
  "top_rated_airbnbs_page (Without_rating ls) min_rating sel =
     top_rated_airbnbs_page
       (With_rating (map (\<lambda>r. with_rating r (times5 (reviews_per_month r))) ls)) min_rating sel \<and>
   (1 < x \<longrightarrow>
      rating (with_rating r (times5 (Fin x))) = Fin (x * 5) \<and> 5 < x * 5 \<and>
      rating_lambda (Fin x) = Fin 5 \<and> times5 (Fin x) \<noteq> rating_lambda (Fin x))"
  by (simp add: top_rated_airbnbs_page_def Let_def with_rating_def)

theorem inline_rating_uncapped_witness:
  "(1 :: rat) < 2 \<and> reviews_per_month listing_busy = Fin 2 \<and>
   top_rated_airbnbs_page (Without_rating [listing_busy]) (9 / 2) [] =
     (With_rating [with_rating listing_busy (Fin 10)], Inr [with_rating listing_busy (Fin 10)]) \<and>
   rating (with_rating listing_busy (Fin 10)) = Fin 10 \<and>
   rating_lambda (reviews_per_month listing_busy) = Fin 5"
proof -
  have run: "top_rated_airbnbs_page
       (With_rating (map (\<lambda>r. with_rating r (times5 (reviews_per_month r))) [listing_busy]))
       (9 / 2) [] =
     (With_rating [with_rating listing_busy (Fin 10)], Inr [with_rating listing_busy (Fin 10)])"
    by (simp add: top_rated_airbnbs_page_def Let_def with_rating_def listing_busy_def)
  from inline_rating_uncapped [of "[listing_busy]" "9 / 2" "[]" 2 listing_busy] run
  show ?thesis
    by (simp add: listing_busy_def with_rating_def)
qed

section \<open>The input frames after a call\<close>

lemma filter_listings_ref_heap:
  "fst (filter_listings_ref heap data lo hi nb) =
     heap @ [filter_listings (heap ! data) lo hi nb] \<and>
   snd (filter_listings_ref heap data lo hi nb) = length heap"
  by (simp add: filter_listings_ref_def alloc_def)

lemma most_affordable_ref_heap:
  "fst (most_affordable_airbnbs_page_ref sort_values heap listings sel) =
     heap @ [filter_listings (heap ! listings) 0 200 (if sel = ''All'' then None else Some sel),
             sort_values (filter_listings (heap ! listings) 0 200
               (if sel = ''All'' then None else Some sel)),
             snd (most_affordable_airbnbs_page sort_values (heap ! listings) sel)] \<and>
   snd (most_affordable_airbnbs_page_ref sort_values heap listings sel) = length heap + 2"
  by (simp add: most_affordable_airbnbs_page_ref_def most_affordable_airbnbs_page_def
      filter_listings_ref_def alloc_def Let_def nth_append)

lemma restaurant_page_ref_heap:
  "\<exists>new. fst (restaurant_page_ref heap restaurants location cuisine) = heap @ new \<and>
     new \<noteq> [] \<and>
     snd (restaurant_page_ref heap restaurants location cuisine) = length heap + length new - 1 \<and>
     last new = snd (restaurant_page (heap ! restaurants) location cuisine)"
  by (simp add: restaurant_page_ref_def restaurant_page_def alloc_def Let_def nth_append)

lemma top_rated_ref_heap:
  "\<exists>new. fst (top_rated_airbnbs_page_ref heap listings min_rating sel) =
     (case heap ! listings of
        Without_rating ls \<Rightarrow>
          heap[listings := With_rating (map (\<lambda>r. with_rating r (times5 (reviews_per_month r))) ls)]
      | With_rating rs \<Rightarrow> heap) @ new"
  by (auto simp: top_rated_airbnbs_page_ref_def alloc_def Let_def
      split: frame.splits sum.splits)

lemma top_rated_ref_frame:
  assumes "listings < length heap"
  shows "fst (top_rated_airbnbs_page_ref heap listings min_rating sel) ! listings =
           fst (top_rated_airbnbs_page (heap ! listings) min_rating sel)"
proof -
  from top_rated_ref_heap [of heap listings min_rating sel] obtain new
    where "fst (top_rated_airbnbs_page_ref heap listings min_rating sel) =
     (case heap ! listings of
        Without_rating ls \<Rightarrow>
          heap[listings := With_rating (map (\<lambda>r. with_rating r (times5 (reviews_per_month r))) ls)]
      | With_rating rs \<Rightarrow> heap) @ new"
    by blast
  with assms show ?thesis
    by (cases "heap ! listings") (simp_all add: nth_append top_rated_airbnbs_page_def Let_def)
qed

text \<open>
  Claim C7, as the code has it. With the frames held by reference, every object that
  exists before a call of \<open>filter_listings\<close>, \<open>most_affordable_airbnbs_page\<close> or
  \<open>restaurant_page\<close>, the frame passed in among them, is the same after the call, and
  the result is a new object holding what the operation computes. The same is true of
  \<open>top_rated_airbnbs_page\<close> on a frame that has the column \<open>rating\<close>, as every table
  from \<open>load_data\<close> has, whether the page returns or raises. On a frame without that
  column \<open>top_rated_airbnbs_page\<close> assigns the column to the frame it was given and
  leaves every other object as it was.
\<close>

theorem query_layer_leaves_input:
  "(take (length heap) (fst (filter_listings_ref heap data lo hi nb)) = heap \<and>
    snd (filter_listings_ref heap data lo hi nb) = length heap \<and>
    fst (filter_listings_ref heap data lo hi nb) ! snd (filter_listings_ref heap data lo hi nb)
      = filter_listings (heap ! data) lo hi nb) \<and>
   (take (length heap_a) (fst (most_affordable_airbnbs_page_ref sort_values heap_a listings nb_a))
      = heap_a \<and>
    length heap_a \<le> snd (most_affordable_airbnbs_page_ref sort_values heap_a listings nb_a) \<and>
    fst (most_affordable_airbnbs_page_ref sort_values heap_a listings nb_a) !
      snd (most_affordable_airbnbs_page_ref sort_values heap_a listings nb_a)
      = snd (most_affordable_airbnbs_page sort_values (heap_a ! listings) nb_a)) \<and>
   (take (length heap_r) (fst (restaurant_page_ref heap_r restaurants location cuisine)) = heap_r \<and>
    length heap_r \<le> snd (restaurant_page_ref heap_r restaurants location cuisine) \<and>
    fst (restaurant_page_ref heap_r restaurants location cuisine) !
      snd (restaurant_page_ref heap_r restaurants location cuisine)
      = snd (restaurant_page (heap_r ! restaurants) location cuisine)) \<and>
   (heap_t ! ref = With_rating rs \<longrightarrow>
      take (length heap_t) (fst (top_rated_airbnbs_page_ref heap_t ref min_rating sel)) = heap_t) \<and>
   (ref < length heap_t \<and> heap_t ! ref = Without_rating ls \<longrightarrow>
      take (length heap_t) (fst (top_rated_airbnbs_page_ref heap_t ref min_rating sel)) =
        heap_t[ref := With_rating (map (\<lambda>r. with_rating r (times5 (reviews_per_month r))) ls)]) \<and>
   (ref < length heap_t \<longrightarrow>
      fst (top_rated_airbnbs_page_ref heap_t ref min_rating sel) ! ref =
        fst (top_rated_airbnbs_page (heap_t ! ref) min_rating sel))"
proof -
  have price: "take (length heap) (fst (filter_listings_ref heap data lo hi nb)) = heap \<and>
    snd (filter_listings_ref heap data lo hi nb) = length heap \<and>
    fst (filter_listings_ref heap data lo hi nb) ! snd (filter_listings_ref heap data lo hi nb)
      = filter_listings (heap ! data) lo hi nb"
    by (simp add: filter_listings_ref_heap)
  have affordable:
    "take (length heap_a) (fst (most_affordable_airbnbs_page_ref sort_values heap_a listings nb_a))
      = heap_a \<and>
    length heap_a \<le> snd (most_affordable_airbnbs_page_ref sort_values heap_a listings nb_a) \<and>
    fst (most_affordable_airbnbs_page_ref sort_values heap_a listings nb_a) !
      snd (most_affordable_airbnbs_page_ref sort_values heap_a listings nb_a)
      = snd (most_affordable_airbnbs_page sort_values (heap_a ! listings) nb_a)"
    by (simp add: most_affordable_ref_heap nth_append)
  from restaurant_page_ref_heap [of heap_r restaurants location cuisine] obtain new
    where new: "fst (restaurant_page_ref heap_r restaurants location cuisine) = heap_r @ new"
      "new \<noteq> []"
      "snd (restaurant_page_ref heap_r restaurants location cuisine)
         = length heap_r + length new - 1"
      "last new = snd (restaurant_page (heap_r ! restaurants) location cuisine)"
    by blast
  from new(2) have "new ! (length new - 1) = last new"
    by (simp add: last_conv_nth)
  moreover from new(2) have "length heap_r + length new - 1 = length heap_r + (length new - 1)"
    by (cases new) simp_all
  ultimately have restaurant:
    "take (length heap_r) (fst (restaurant_page_ref heap_r restaurants location cuisine)) = heap_r \<and>
    length heap_r \<le> snd (restaurant_page_ref heap_r restaurants location cuisine) \<and>
    fst (restaurant_page_ref heap_r restaurants location cuisine) !
      snd (restaurant_page_ref heap_r restaurants location cuisine)
      = snd (restaurant_page (heap_r ! restaurants) location cuisine)"
    using new by (simp only: nth_append_length_plus take_append take_all order_refl
        diff_self_eq_0 take_0 append_Nil2 le_add1 simp_thms)
  from top_rated_ref_heap [of heap_t ref min_rating sel] obtain new'
    where new': "fst (top_rated_airbnbs_page_ref heap_t ref min_rating sel) =
     (case heap_t ! ref of
        Without_rating ls \<Rightarrow>
          heap_t[ref := With_rating (map (\<lambda>r. with_rating r (times5 (reviews_per_month r))) ls)]
      | With_rating rs \<Rightarrow> heap_t) @ new'"
    by blast
  have rated: "heap_t ! ref = With_rating rs \<longrightarrow>
      take (length heap_t) (fst (top_rated_airbnbs_page_ref heap_t ref min_rating sel)) = heap_t"
    by (simp add: new')
  have unrated: "ref < length heap_t \<and> heap_t ! ref = Without_rating ls \<longrightarrow>
      take (length heap_t) (fst (top_rated_airbnbs_page_ref heap_t ref min_rating sel)) =
        heap_t[ref := With_rating (map (\<lambda>r. with_rating r (times5 (reviews_per_month r))) ls)]"
    by (simp add: new')
  have frame: "ref < length heap_t \<longrightarrow>
      fst (top_rated_airbnbs_page_ref heap_t ref min_rating sel) ! ref =
        fst (top_rated_airbnbs_page (heap_t ! ref) min_rating sel)"
    by (simp add: top_rated_ref_frame)
  from price affordable restaurant rated unrated frame show ?thesis
    by (intro conjI) blast+
qed

theorem query_layer_leaves_input_witness:
  "fst (filter_listings_ref [[listing_a, listing_dear]] 0 0 200 None)
     = [[listing_a, listing_dear], [listing_a]] \<and>
   take 1 (fst (most_affordable_airbnbs_page_ref stable_sort_by_price
                  [[listing_a, listing_dear]] 0 ''All''))
     = [[listing_a, listing_dear]] \<and>
   fst (restaurant_page_ref [[thai_place]] 0 ''All'' ''Thai'') = [[thai_place], [thai_place], [thai_place]] \<and>
   [With_rating [listing_a]] ! 0 = With_rating [listing_a] \<and>
   take 1 (fst (top_rated_airbnbs_page_ref [With_rating [listing_a]] 0 (9 / 2) []))
     = [With_rating [listing_a]] \<and>
   (0 :: nat) < length [Without_rating [listing_busy]] \<and>
   take 1 (fst (top_rated_airbnbs_page_ref [Without_rating [listing_busy]] 0 (9 / 2) []))
     = [With_rating [with_rating listing_busy (Fin 10)]]"
proof -
  have a: "fst (filter_listings_ref [[listing_a, listing_dear]] 0 0 200 None)
     = [[listing_a, listing_dear], [listing_a]]"
    by (simp add: filter_listings_ref_def alloc_def filter_listings_def
        listing_a_def listing_dear_def)
  have b: "fst (restaurant_page_ref [[thai_place]] 0 ''All'' ''Thai'')
     = [[thai_place], [thai_place], [thai_place]]"
    by (simp add: restaurant_page_ref_def alloc_def Let_def thai_place_def)
  have c: "times5 (reviews_per_month listing_busy) = Fin 10"
    by (simp add: listing_busy_def)
  from query_layer_leaves_input [where heap = "[[listing_a, listing_dear]]" and data = 0
      and lo = 0 and hi = 200 and nb = None
      and heap_r = "[[thai_place]]" and restaurants = 0
      and location = "''All''" and cuisine = "''Thai''"
      and ls = "[]" and heap_a = "[[listing_a, listing_dear]]"
      and sort_values = stable_sort_by_price and listings = 0 and nb_a = "''All''"
      and heap_t = "[With_rating [listing_a]]" and ref = 0 and rs = "[listing_a]"
      and min_rating = "9 / 2" and sel = "[]"]
  have "take (length [[listing_a, listing_dear]])
      (fst (most_affordable_airbnbs_page_ref stable_sort_by_price [[listing_a, listing_dear]] 0 ''All''))
      = [[listing_a, listing_dear]]"
    and "take (length [With_rating [listing_a]])
      (fst (top_rated_airbnbs_page_ref [With_rating [listing_a]] 0 (9 / 2) []))
      = [With_rating [listing_a]]"
    by simp_all
  moreover from query_layer_leaves_input [where heap = "[[listing_a, listing_dear]]" and data = 0
      and lo = 0 and hi = 200 and nb = None
      and heap_r = "[[thai_place]]" and restaurants = 0
      and location = "''All''" and cuisine = "''Thai''"
      and heap_a = "[[listing_a, listing_dear]]"
      and sort_values = stable_sort_by_price and listings = 0 and nb_a = "''All''"
      and rs = "[]" and heap_t = "[Without_rating [listing_busy]]"
      and ref = 0 and ls = "[listing_busy]" and min_rating = "9 / 2" and sel = "[]"]
  have "take (length [Without_rating [listing_busy]])
      (fst (top_rated_airbnbs_page_ref [Without_rating [listing_busy]] 0 (9 / 2) []))
      = [With_rating [with_rating listing_busy (Fin 10)]]"
    by (simp add: c)
  ultimately show ?thesis
    using a b by simp
qed

text \<open>
  The claim as the specification states it fails for \<open>top_rated_airbnbs_page\<close> on a
  frame without the column \<open>rating\<close>: after the call the frame has the column.
\<close>

theorem top_rated_mutates_counterexample:
  "fst (top_rated_airbnbs_page (Without_rating [listing_busy]) (9 / 2) [])
     = With_rating [with_rating listing_busy (Fin 10)] \<and>
   fst (top_rated_airbnbs_page (Without_rating [listing_busy]) (9 / 2) [])
     \<noteq> Without_rating [listing_busy] \<and>
   [Without_rating [listing_busy]] ! 0 = Without_rating [listing_busy] \<and>
   fst (top_rated_airbnbs_page_ref [Without_rating [listing_busy]] 0 (9 / 2) []) ! 0
     = With_rating [with_rating listing_busy (Fin 10)]"
  by (simp add: top_rated_airbnbs_page_def top_rated_airbnbs_page_ref_def alloc_def Let_def
      listing_busy_def with_rating_def)

section \<open>NeighborhoodMeanPrice\<close>












end
